theory Spec2Isabelle
  imports Main
begin

section \<open>JavaScript values\<close>

text \<open>
  The values that \<^verbatim>\<open>packages/jest-jasmine2/src/index.js\<close> inspects. The type is
  parametric in what an object value carries: a structural description of the object
  (\<open>obj\<close>, below) where the code only observes values, or an address into a store where
  the identity of objects and their state matter (\<^verbatim>\<open>iterableEquality\<close>, which advances
  iterators, and the patched \<^verbatim>\<open>buildExpectationResult\<close>, which copies objects that are
  mutated later). Numbers are integers here; nothing in this file does
  floating-point arithmetic. A function value carries its identity.
\<close>

datatype 'o jsval =
    Undefined
  | Null
  | Bool bool
  | Num int
  | Str string
  | Fn nat
  | Object 'o

text \<open>The \<^verbatim>\<open>typeof\<close> operator.\<close>

fun typeof :: "'o jsval \<Rightarrow> string" where
  "typeof Undefined = ''undefined''"
| "typeof Null = ''object''"
| "typeof (Bool _) = ''boolean''"
| "typeof (Num _) = ''number''"
| "typeof (Str _) = ''string''"
| "typeof (Fn _) = ''function''"
| "typeof (Object _) = ''object''"

text \<open>Truthiness, as tested by \<^verbatim>\<open>if (v)\<close>, \<^verbatim>\<open>!v\<close> and \<^verbatim>\<open>v && ...\<close>.\<close>

fun truthy :: "'o jsval \<Rightarrow> bool" where
  "truthy Undefined = False"
| "truthy Null = False"
| "truthy (Bool b) = b"
| "truthy (Num n) = (n \<noteq> 0)"
| "truthy (Str s) = (s \<noteq> [])"
| "truthy (Fn _) = True"
| "truthy (Object _) = True"

text \<open>
  An object as the call matchers and the pretty-printer are given it, a description of
  what it holds at that instant: whether it is an array, the identity of its
  constructor, the elements it holds as a sequence (\<open>None\<close> when it is no sequence), and
  its named properties.
\<close>

datatype obj =
  Obj (is_array: bool) (ctor: nat) (iter: "obj jsval list option")
      (props: "(string \<times> obj jsval) list")

type_synonym val = "obj jsval"

text \<open>An array literal \<^verbatim>\<open>[x1, ..., xn]\<close>; its constructor \<^verbatim>\<open>Array\<close> has identity 0.\<close>

definition Arr :: "val list \<Rightarrow> val" where
  "Arr xs = Object (Obj True 0 (Some xs) [])"

text \<open>A value whose objects are addresses into a store.\<close>

type_synonym addr = nat

type_synonym ref = "addr jsval"

section \<open>SequenceEquality: \<^verbatim>\<open>iterableEquality\<close>\<close>

text \<open>
  Iteration in JavaScript is stateful: \<^verbatim>\<open>v[Symbol.iterator]()\<close> returns an iterator,
  each call of its \<^verbatim>\<open>next()\<close> advances it, and two values may hand out the same
  iterator (a generator object returns itself). So the values compared here are
  references into a heap of objects and of iterators. The calls that run code of the
  values are modelled with what they may do: \<^verbatim>\<open>[Symbol.iterator]()\<close>, \<^verbatim>\<open>next()\<close> and
  \<^verbatim>\<open>return()\<close>. Reading a property (\<^verbatim>\<open>constructor\<close>, \<^verbatim>\<open>Symbol.iterator\<close>, \<^verbatim>\<open>done\<close>,
  \<^verbatim>\<open>value\<close>) only reads.

  What one call of \<^verbatim>\<open>next()\<close> does: it returns a result object that is not done and
  carries a value; it returns a result object that is done; it throws (as also happens
  when it returns \<^verbatim>\<open>null\<close> or \<^verbatim>\<open>undefined\<close>, or when there is no \<^verbatim>\<open>next\<close> to call);
  or it returns a primitive that is neither \<^verbatim>\<open>null\<close> nor \<^verbatim>\<open>undefined\<close>.
\<close>

datatype step = Yield ref | Done | Raise | Primitive

text \<open>
  What the \<^verbatim>\<open>return()\<close> method of an iterator does, which \<^verbatim>\<open>for...of\<close> calls when
  its body leaves the loop: there is none; it completes and leaves the iterator as it is;
  it completes and finishes the iterator, as the one of a generator does; or it throws
  (as also happens when it returns no object).
\<close>

datatype on_return = NoReturn | Completes | Finishes | ReturnRaises

text \<open>
  An iterator answers the calls of \<^verbatim>\<open>next()\<close> by a script, the \<open>n\<close>-th call (from 0)
  by \<open>script n\<close>; \<open>position\<close> counts the calls made so far. The script may yield for
  ever.
\<close>

record iterator =
  script :: "nat \<Rightarrow> step"
  position :: nat
  on_return :: on_return

text \<open>
  The property \<^verbatim>\<open>v[Symbol.iterator]\<close>: absent or falsy; truthy but not callable;
  a method whose call throws; a method that returns the iterator stored at a handle,
  the same one at every call; or a method that returns a new iterator at every call,
  which starts as given. (A method that returns something that is no iterator is a
  \<open>Fresh\<close> one whose script raises at every call.)
\<close>

datatype iterator_property =
    Absent
  | NotCallable
  | Raises
  | Self nat
  | Fresh iterator

text \<open>
  An object, as \<^verbatim>\<open>iterableEquality\<close> looks at it: whether \<^verbatim>\<open>Array.isArray\<close> holds of
  it, the value of its \<^verbatim>\<open>constructor\<close> property, and its \<^verbatim>\<open>Symbol.iterator\<close>
  property.
\<close>

record jsobject =
  array :: bool
  constructor_value :: ref
  iterator_property :: iterator_property

record heap =
  objects :: "jsobject list"
  iterators :: "iterator list"

text \<open>
  The custom equality testers that can be handed to the host equality, by name. The
  source hands it one list, \<^verbatim>\<open>[iterableEquality]\<close>.
\<close>

datatype tester = IterableEquality

text \<open>
  How a call of \<^verbatim>\<open>iterableEquality\<close> ends when it ends: it returns \<^verbatim>\<open>undefined\<close> and
  so defers to the other testers, it returns a boolean, or it throws.
\<close>

datatype verdict = Defers | Decides bool | Throws

definition object_at :: "heap \<Rightarrow> ref \<Rightarrow> jsobject option" where
  "object_at h v =
     (case v of
        Object x \<Rightarrow> (if x < length (objects h) then Some (objects h ! x) else None)
      | _ \<Rightarrow> None)"

definition isArray :: "heap \<Rightarrow> ref \<Rightarrow> bool" where
  "isArray h v = (case object_at h v of Some ob \<Rightarrow> array ob | None \<Rightarrow> False)"

text \<open>\<^verbatim>\<open>v.constructor\<close> of an object.\<close>

definition constructor :: "heap \<Rightarrow> ref \<Rightarrow> ref" where
  "constructor h v =
     (case object_at h v of Some ob \<Rightarrow> constructor_value ob | None \<Rightarrow> Undefined)"

text \<open>A primitive string iterates over its characters, with a new iterator each time.\<close>

definition string_iterator :: "string \<Rightarrow> iterator" where
  "string_iterator s =
     \<lparr>script = (\<lambda>n. if n < length s then Yield (Str [s ! n]) else Done),
      position = 0, on_return = NoReturn\<rparr>"

text \<open>
  \<^verbatim>\<open>v[Symbol.iterator]\<close>. (On \<^verbatim>\<open>null\<close> and \<^verbatim>\<open>undefined\<close> the read would throw; the
  source reads it only behind \<^verbatim>\<open>object != null\<close>.)
\<close>

definition symbol_iterator :: "heap \<Rightarrow> ref \<Rightarrow> iterator_property" where
  "symbol_iterator h v =
     (case v of
        Str s \<Rightarrow> Fresh (string_iterator s)
      | _ \<Rightarrow> (case object_at h v of Some ob \<Rightarrow> iterator_property ob | None \<Rightarrow> Absent))"

text \<open>
  \<^verbatim>\<open>const hasIterator = object => !!(object != null && object[Symbol.iterator]);\<close>
\<close>

definition hasIterator :: "heap \<Rightarrow> ref \<Rightarrow> bool" where
  "hasIterator h object =
     (object \<noteq> Null \<and> object \<noteq> Undefined \<and> symbol_iterator h object \<noteq> Absent)"

text \<open>
  The call \<^verbatim>\<open>v[Symbol.iterator]()\<close>: the handle of the iterator it returns, or \<open>None\<close>
  when it throws, and the heap after it.
\<close>

definition call_symbol_iterator :: "heap \<Rightarrow> ref \<Rightarrow> nat option \<times> heap" where
  "call_symbol_iterator h v =
     (case symbol_iterator h v of
        Absent \<Rightarrow> (None, h)
      | NotCallable \<Rightarrow> (None, h)
      | Raises \<Rightarrow> (None, h)
      | Self i \<Rightarrow> (Some i, h)
      | Fresh it \<Rightarrow> (Some (length (iterators h)), h\<lparr>iterators := iterators h @ [it]\<rparr>))"

text \<open>
  One call of \<^verbatim>\<open>next()\<close> on the iterator at a handle: what it does, and the heap with
  that iterator advanced. A handle that names no iterator has no \<^verbatim>\<open>next\<close> to call.
\<close>

definition iterator_next :: "heap \<Rightarrow> nat \<Rightarrow> step \<times> heap" where
  "iterator_next h i =
     (if i < length (iterators h)
      then let it = iterators h ! i
           in (script it (position it),
               h\<lparr>iterators := (iterators h)[i := it\<lparr>position := Suc (position it)\<rparr>]\<rparr>)
      else (Raise, h))"

text \<open>
  The step as \<^verbatim>\<open>for (const aValue of a)\<close> takes it: a result that is no object is a
  \<^verbatim>\<open>TypeError\<close>.
\<close>

fun for_of_step :: "step \<Rightarrow> step" where
  "for_of_step Primitive = Raise"
| "for_of_step s = s"

text \<open>
  The step as \<^verbatim>\<open>nextB.done\<close> and \<^verbatim>\<open>nextB.value\<close> read it from
  \<^verbatim>\<open>const nextB = bIterator.next()\<close>: both are \<^verbatim>\<open>undefined\<close> on a primitive.
\<close>

fun read_step :: "step \<Rightarrow> step" where
  "read_step Primitive = Yield Undefined"
| "read_step s = s"

text \<open>
  Leaving \<^verbatim>\<open>for...of\<close> from its body calls \<^verbatim>\<open>return()\<close> on the iterator of the loop:
  whether that completes, and the heap after it.
\<close>

definition iterator_close :: "heap \<Rightarrow> nat \<Rightarrow> bool \<times> heap" where
  "iterator_close h i =
     (if i < length (iterators h)
      then (case on_return (iterators h ! i) of
              NoReturn \<Rightarrow> (True, h)
            | Completes \<Rightarrow> (True, h)
            | Finishes \<Rightarrow>
                (True, h\<lparr>iterators := (iterators h)[i := (iterators h ! i)\<lparr>script := (\<lambda>n. Done)\<rparr>]\<rparr>)
            | ReturnRaises \<Rightarrow> (False, h))
      else (True, h))"

text \<open>
  \<^verbatim>\<open>return false\<close> in the body of the loop: the iterator of the loop is closed first,
  and if that throws, the call throws.
\<close>

definition return_false :: "heap \<Rightarrow> nat \<Rightarrow> verdict \<times> heap" where
  "return_false h aIterator =
     (case iterator_close h aIterator of
        (True, h') \<Rightarrow> (Decides False, h')
      | (False, h') \<Rightarrow> (Throws, h'))"

text \<open>
  The loop of \<^verbatim>\<open>iterableEquality\<close>, from the first \<^verbatim>\<open>next()\<close> of \<^verbatim>\<open>for (const aValue of a)\<close>
  to the final \<^verbatim>\<open>if (!bIterator.next().done) return false; return true\<close>. It is \<open>None\<close>
  when the loop runs for ever. \<open>equals\<close> is the host equality
  \<^verbatim>\<open>jasmine.matchersUtil.equals\<close> of the vendored engine, a parameter here; it is called
  with the list of custom testers \<^verbatim>\<open>[iterableEquality]\<close> and is taken to answer with
  a boolean. When \<^verbatim>\<open>bIterator.next()\<close> throws in the body, the iterator of the loop is
  closed and the exception stays. When \<^verbatim>\<open>next()\<close> of the loop's own iterator throws, or
  that iterator is done, \<^verbatim>\<open>for...of\<close> does not close it. (The two branches for
  \<open>Primitive\<close> are there for the case distinction to be complete: \<open>for_of_step\<close> and
  \<open>read_step\<close> never return it.)
\<close>

partial_function (option) lockstep ::
  "(tester list \<Rightarrow> ref \<Rightarrow> ref \<Rightarrow> bool) \<Rightarrow> nat \<Rightarrow> nat \<Rightarrow> heap \<Rightarrow> (verdict \<times> heap) option" where
  "lockstep equals aIterator bIterator h =
     (case iterator_next h aIterator of (aStep, h1) \<Rightarrow>
        (case for_of_step aStep of
           Raise \<Rightarrow> Some (Throws, h1)
         | Primitive \<Rightarrow> Some (Throws, h1)
         | Done \<Rightarrow>
             (case iterator_next h1 bIterator of (bStep, h2) \<Rightarrow>
                (case read_step bStep of
                   Raise \<Rightarrow> Some (Throws, h2)
                 | Primitive \<Rightarrow> Some (Throws, h2)
                 | Done \<Rightarrow> Some (Decides True, h2)
                 | Yield _ \<Rightarrow> Some (Decides False, h2)))
         | Yield aValue \<Rightarrow>
             (case iterator_next h1 bIterator of (bStep, h2) \<Rightarrow>
                (case read_step bStep of
                   Raise \<Rightarrow> Some (Throws, snd (iterator_close h2 aIterator))
                 | Primitive \<Rightarrow> Some (Throws, snd (iterator_close h2 aIterator))
                 | Done \<Rightarrow> Some (return_false h2 aIterator)
                 | Yield nextB_value \<Rightarrow>
                     if \<not> equals [IterableEquality] aValue nextB_value
                     then Some (return_false h2 aIterator)
                     else lockstep equals aIterator bIterator h2))))"

text \<open>
  \<^verbatim>\<open>iterableEquality(a, b)\<close> in a heap: how it ends and the heap it leaves, or \<open>None\<close>
  when it does not end. \<^verbatim>\<open>b[Symbol.iterator]()\<close> is called first, then \<^verbatim>\<open>for...of\<close>
  calls \<^verbatim>\<open>a[Symbol.iterator]()\<close>.
\<close>

definition iterableEquality ::
  "(tester list \<Rightarrow> ref \<Rightarrow> ref \<Rightarrow> bool) \<Rightarrow> ref \<Rightarrow> ref \<Rightarrow> heap \<Rightarrow> (verdict \<times> heap) option" where
  "iterableEquality equals a b h =
     (if typeof a \<noteq> ''object'' \<or> typeof b \<noteq> ''object'' \<or>
         isArray h a \<or> isArray h b \<or>
         \<not> hasIterator h a \<or> \<not> hasIterator h b
      then Some (Defers, h)
      else if constructor h a \<noteq> constructor h b then Some (Decides False, h)
      else
        (case call_symbol_iterator h b of
           (None, h1) \<Rightarrow> Some (Throws, h1)
         | (Some bIterator, h1) \<Rightarrow>
             (case call_symbol_iterator h1 a of
                (None, h2) \<Rightarrow> Some (Throws, h2)
              | (Some aIterator, h2) \<Rightarrow> lockstep equals aIterator bIterator h2)))"

text \<open>
  The applicability condition in the words of the specification: both values are
  non-null, of object type, neither is an array, and both expose the iteration protocol,
  which is to have the property \<^verbatim>\<open>Symbol.iterator\<close>.
\<close>

definition exposes_iteration :: "heap \<Rightarrow> ref \<Rightarrow> bool" where
  "exposes_iteration h v = (symbol_iterator h v \<noteq> Absent)"

definition sequence_applicable :: "heap \<Rightarrow> ref \<Rightarrow> ref \<Rightarrow> bool" where
  "sequence_applicable h a b =
     (a \<noteq> Null \<and> b \<noteq> Null \<and> typeof a = ''object'' \<and> typeof b = ''object'' \<and>
      \<not> isArray h a \<and> \<not> isArray h b \<and> exposes_iteration h a \<and> exposes_iteration h b)"

text \<open>
  The two sequences that a walk over the iterators at \<open>aIterator\<close> and \<open>bIterator\<close> meets,
  as long as it goes on. \<open>answer h i k\<close> is what the \<open>k\<close>-th coming call of \<^verbatim>\<open>next()\<close>
  on the iterator at \<open>i\<close> will do. Round \<open>n\<close> of the walk takes one step from each side,
  first from \<open>a\<close>; when both sides are the same iterator they take its steps in turn.
\<close>

definition answer :: "heap \<Rightarrow> nat \<Rightarrow> nat \<Rightarrow> step" where
  "answer h i k =
     (if i < length (iterators h)
      then script (iterators h ! i) (position (iterators h ! i) + k)
      else Raise)"

definition drawn_a :: "heap \<Rightarrow> nat \<Rightarrow> nat \<Rightarrow> nat \<Rightarrow> step" where
  "drawn_a h aIterator bIterator n =
     for_of_step (answer h aIterator (if aIterator = bIterator then 2 * n else n))"

definition drawn_b :: "heap \<Rightarrow> nat \<Rightarrow> nat \<Rightarrow> nat \<Rightarrow> step" where
  "drawn_b h aIterator bIterator n =
     read_step (answer h bIterator (if aIterator = bIterator then 2 * n + 1 else n))"

text \<open>Round \<open>n\<close> pairs two elements, equal or not under the host equality.\<close>

definition pair_equal ::
  "(tester list \<Rightarrow> ref \<Rightarrow> ref \<Rightarrow> bool) \<Rightarrow> heap \<Rightarrow> nat \<Rightarrow> nat \<Rightarrow> nat \<Rightarrow> bool" where
  "pair_equal equals h aIterator bIterator n =
     (case (drawn_a h aIterator bIterator n, drawn_b h aIterator bIterator n) of
        (Yield x, Yield y) \<Rightarrow> equals [IterableEquality] x y
      | _ \<Rightarrow> False)"

definition pair_unequal ::
  "(tester list \<Rightarrow> ref \<Rightarrow> ref \<Rightarrow> bool) \<Rightarrow> heap \<Rightarrow> nat \<Rightarrow> nat \<Rightarrow> nat \<Rightarrow> bool" where
  "pair_unequal equals h aIterator bIterator n =
     (case (drawn_a h aIterator bIterator n, drawn_b h aIterator bIterator n) of
        (Yield x, Yield y) \<Rightarrow> \<not> equals [IterableEquality] x y
      | _ \<Rightarrow> False)"

text \<open>Both sequences end in round \<open>n\<close>; one ends there and the other goes on.\<close>

definition end_together :: "heap \<Rightarrow> nat \<Rightarrow> nat \<Rightarrow> nat \<Rightarrow> bool" where
  "end_together h aIterator bIterator n =
     (drawn_a h aIterator bIterator n = Done \<and> drawn_b h aIterator bIterator n = Done)"

definition a_ends_first :: "heap \<Rightarrow> nat \<Rightarrow> nat \<Rightarrow> nat \<Rightarrow> bool" where
  "a_ends_first h aIterator bIterator n =
     (case (drawn_a h aIterator bIterator n, drawn_b h aIterator bIterator n) of
        (Done, Yield y) \<Rightarrow> True
      | _ \<Rightarrow> False)"

definition b_ends_first :: "heap \<Rightarrow> nat \<Rightarrow> nat \<Rightarrow> nat \<Rightarrow> bool" where
  "b_ends_first h aIterator bIterator n =
     (case (drawn_a h aIterator bIterator n, drawn_b h aIterator bIterator n) of
        (Yield x, Done) \<Rightarrow> True
      | _ \<Rightarrow> False)"

text \<open>Closing the iterator at a handle completes.\<close>

definition closes :: "heap \<Rightarrow> nat \<Rightarrow> bool" where
  "closes h i = fst (iterator_close h i)"

text \<open>How the walk ends in a round that does not pair two equal elements.\<close>

fun stop_verdict :: "bool \<Rightarrow> step \<Rightarrow> step \<Rightarrow> verdict" where
  "stop_verdict ok Done Done = Decides True"
| "stop_verdict ok Done (Yield _) = Decides False"
| "stop_verdict ok (Yield _) Done = (if ok then Decides False else Throws)"
| "stop_verdict ok (Yield _) (Yield _) = (if ok then Decides False else Throws)"
| "stop_verdict ok _ _ = Throws"

text \<open>The heap after one call of \<^verbatim>\<open>next()\<close> on the iterator at a handle.\<close>

definition advance :: "heap \<Rightarrow> nat \<Rightarrow> heap" where
  "advance h i = snd (iterator_next h i)"

text \<open>
  The iterators of \<open>a\<close> and of \<open>b\<close> and the heap once both are obtained, \<open>b\<close>'s first,
  when neither call throws.
\<close>

definition iterators_of :: "heap \<Rightarrow> ref \<Rightarrow> ref \<Rightarrow> (nat \<times> nat \<times> heap) option" where
  "iterators_of h a b =
     (case call_symbol_iterator h b of
        (None, h1) \<Rightarrow> None
      | (Some bIterator, h1) \<Rightarrow>
          (case call_symbol_iterator h1 a of
             (None, h2) \<Rightarrow> None
           | (Some aIterator, h2) \<Rightarrow> Some (aIterator, bIterator, h2)))"

section \<open>The reporter's formatter and the diagnostic renderer\<close>

text \<open>
  \<^verbatim>\<open>reporter.getFormatter().prettyPrint\<close> lives in the reporter module; the function it
  computes is the parameter \<open>pp\<close>. To tell when it runs, every computation that may
  call it threads the \<open>pp_log\<close>: the values the pretty-printer has been invoked on so
  far, oldest first.
\<close>

type_synonym pp_log = "val list"

definition prettyPrint :: "(val \<Rightarrow> string) \<Rightarrow> val \<Rightarrow> pp_log \<Rightarrow> string \<times> pp_log" where
  "prettyPrint pp v log = (pp v, log @ [v])"

text \<open>\<^verbatim>\<open>Array.prototype.map\<close> with a callback that runs in the log, in index order.\<close>

fun map_calls ::
  "(val \<Rightarrow> pp_log \<Rightarrow> string \<times> pp_log) \<Rightarrow> val list \<Rightarrow> pp_log \<Rightarrow> string list \<times> pp_log" where
  "map_calls f [] log = ([], log)"
| "map_calls f (call # calls) log =
     (let (s, log1) = f call log;
          (ss, log2) = map_calls f calls log1
      in (s # ss, log2))"

text \<open>
  \<^verbatim>\<open>xs.slice(start)\<close>: a negative start counts from the end, and both are clamped to
  the array.
\<close>

definition slice :: "int \<Rightarrow> 'a list \<Rightarrow> 'a list" where
  "slice start xs =
     (let len = int (length xs);
          k = (if start < 0 then max (len + start) 0 else min start len)
      in drop (nat k) xs)"

text \<open>\<^verbatim>\<open>xs.join(sep)\<close> on an array of strings.\<close>

fun join :: "string \<Rightarrow> string list \<Rightarrow> string" where
  "join sep [] = []"
| "join sep [s] = s"
| "join sep (s # ss) = s @ sep @ join sep ss"

text \<open>The decimal digits of an integer, as a template literal \<^verbatim>\<open>${count}\<close> renders it.\<close>

fun digits :: "nat \<Rightarrow> string" where
  "digits n =
     (if n < 10 then [''0123456789'' ! n]
      else digits (n div 10) @ [''0123456789'' ! (n mod 10)])"

declare digits.simps [simp del]

definition number_to_string :: "int \<Rightarrow> string" where
  "number_to_string n = (if n < 0 then ''-'' @ digits (nat (- n)) else digits (nat n))"

definition CALL_PRINT_LIMIT :: int where
  "CALL_PRINT_LIMIT = 3"

definition LAST_CALL_PRINT_LIMIT :: int where
  "LAST_CALL_PRINT_LIMIT = 1"

text \<open>
  \<^verbatim>\<open>getActualCalls(reporter, calls, limit)\<close>. \<open>calls\<close> holds one value per recorded call,
  oldest first.
\<close>

definition getActualCalls ::
  "(val \<Rightarrow> string) \<Rightarrow> val list \<Rightarrow> int \<Rightarrow> pp_log \<Rightarrow> string \<times> pp_log" where
  "getActualCalls pp calls limit log =
     (let count = int (length calls) - limit;
          (printed, log') = map_calls (prettyPrint pp) (slice (- limit) calls) log
      in (''\<newline>Actual call'' @ (if length calls = 1 then '''' else ''s'') @ '':\<newline>'' @
          join '',\<newline>'' (rev printed) @
          (if count > 0
           then ''\<newline>and '' @ number_to_string count @ '' other call'' @
                (if count = 1 then '''' else ''s'') @ ''.''
           else ''''),
          log'))"

section \<open>CallMatchers\<close>

text \<open>
  The target of a call matcher, as far as the matchers look at it. \<open>calls_all\<close> is
  \<open>Some cs\<close> when \<^verbatim>\<open>test.calls\<close> is truthy and \<^verbatim>\<open>test.calls.all\<close> is defined, \<open>cs\<close>
  being what \<^verbatim>\<open>test.calls.all()\<close> returns; \<open>mock_calls\<close> is \<open>Some cs\<close> when
  \<^verbatim>\<open>test.mock\<close> is defined, \<open>cs\<close> being the array \<^verbatim>\<open>test.mock.calls\<close>. Of a call
  that a spy recorded the matchers read \<^verbatim>\<open>args\<close>; its other properties are the rest of
  the record.
\<close>

record spy_call =
  args :: val

record target =
  calls_all :: "spy_call list option"
  mock_calls :: "val list option"

definition isSpyLike :: "target \<Rightarrow> bool" where
  "isSpyLike test = (calls_all test \<noteq> None)"

definition isMockLike :: "target \<Rightarrow> bool" where
  "isMockLike test = (mock_calls test \<noteq> None)"

text \<open>
  The expression every matcher evaluates after its check of the target:
  \<^verbatim>\<open>isSpy ? actual.calls.all().map(x => x.args) : actual.mock.calls\<close>. It is \<open>None\<close>
  where the property read would throw, which the check before it excludes.
\<close>

definition extractCalls :: "target \<Rightarrow> val list option" where
  "extractCalls actual =
     (if isSpyLike actual then map_option (map args) (calls_all actual)
      else mock_calls actual)"

text \<open>
  What \<^verbatim>\<open>compare\<close> returns: \<^verbatim>\<open>{pass, message}\<close>, where \<^verbatim>\<open>message\<close> is either a
  string stored in the object or a \<^verbatim>\<open>get message()\<close> accessor, whose body runs when
  the property is read.
\<close>

datatype message = Precomputed string | Getter "pp_log \<Rightarrow> string \<times> pp_log"

record outcome =
  pass :: bool
  message :: message

fun read_message :: "message \<Rightarrow> pp_log \<Rightarrow> string \<times> pp_log" where
  "read_message (Precomputed s) log = (s, log)"
| "read_message (Getter g) log = g log"

fun is_accessor :: "message \<Rightarrow> bool" where
  "is_accessor (Precomputed _) = False"
| "is_accessor (Getter _) = True"

text \<open>
  What a matcher throws: \<^verbatim>\<open>Error(msg)\<close>, raised by the matcher itself, or the
  \<^verbatim>\<open>TypeError\<close> of the runtime on reading a property of \<^verbatim>\<open>undefined\<close>.
\<close>

datatype error = Error string | TypeError

text \<open>\<^verbatim>\<open>xs[i]\<close>: \<^verbatim>\<open>undefined\<close> out of range.\<close>

definition index :: "val list \<Rightarrow> int \<Rightarrow> val" where
  "index xs i = (if 0 \<le> i \<and> i < int (length xs) then xs ! nat i else Undefined)"

text \<open>
  Modelled from the spec: the host equality \<^verbatim>\<open>util.equals\<close> is
  \<^verbatim>\<open>jasmine.matchersUtil.equals\<close> of the vendored engine, which is not among the
  sources. The specification calls it deep equality: an argument list deep-equals another
  when both have the same structure down to their primitive parts. The matchers below
  take the host equality as a parameter; this is the one to put there where a property
  depends on what the host equality answers.
\<close>

definition deep_equals :: "val \<Rightarrow> val \<Rightarrow> bool" where
  "deep_equals a b = (a = b)"

text \<open>
  \<^verbatim>\<open>toBeCalled: () => ({compare: (actual, expected) => ...})\<close>. \<open>expected\<close> is the
  first argument given to the matcher, \<^verbatim>\<open>undefined\<close> when there is none.
\<close>

definition toBeCalled :: "target \<Rightarrow> val \<Rightarrow> pp_log \<Rightarrow> (error + outcome) \<times> pp_log" where
  "toBeCalled actual expected log =
     (if truthy expected
      then (Inl (Error (''toBeCalled() does not accept parameters, use '' @
                        ''toBeCalledWith instead.'')), log)
      else
        let isSpy = isSpyLike actual in
        if \<not> isSpy \<and> \<not> isMockLike actual
        then (Inl (Error (''toBeCalled() should be used on a mock function or '' @
                          ''a jasmine spy.'')), log)
        else
          (case extractCalls actual of
             None \<Rightarrow> (Inl TypeError, log)
           | Some calls \<Rightarrow>
               let pass = (length calls \<noteq> 0);
                   message = (if pass then ''Expected not to be called''
                              else ''Expected to be called at least once'')
               in (Inr \<lparr>pass = pass, message = Precomputed message\<rparr>, log)))"

text \<open>
  \<^verbatim>\<open>lastCalledWith: util => ({compare(actual) {...}})\<close>. \<open>arguments\<close> are the arguments
  after \<open>actual\<close>, so \<^verbatim>\<open>Array.prototype.slice.call(arguments, 1)\<close> is the array of them;
  \<open>equals\<close> is the engine's \<^verbatim>\<open>util.equals\<close>, called with two arguments.
\<close>

definition lastCalledWith ::
  "(val \<Rightarrow> string) \<Rightarrow> (val \<Rightarrow> val \<Rightarrow> bool) \<Rightarrow> target \<Rightarrow> val list \<Rightarrow> pp_log \<Rightarrow>
     (error + outcome) \<times> pp_log" where
  "lastCalledWith pp equals actual arguments log =
     (let isSpy = isSpyLike actual in
      if \<not> isSpy \<and> \<not> isMockLike actual
      then (Inl (Error (''lastCalledWith() should be used on a mock function or '' @
                        ''a jasmine spy.'')), log)
      else
        (case extractCalls actual of
           None \<Rightarrow> (Inl TypeError, log)
         | Some calls \<Rightarrow>
             let expected = Arr arguments;
                 pass = equals (index calls (int (length calls) - 1)) expected
             in if \<not> pass
                then (Inr \<lparr>pass = pass,
                           message = Getter (\<lambda>l.
                             let (e, l1) = prettyPrint pp expected l;
                                 (a, l2) = getActualCalls pp calls LAST_CALL_PRINT_LIMIT l1
                             in (''Wasn't last called with the expected values.\<newline>'' @
                                 ''Expected call:\<newline>'' @ e @ a, l2))\<rparr>, log)
                else (Inr \<lparr>pass = pass,
                           message = Getter (\<lambda>l.
                             let (e, l1) = prettyPrint pp expected l
                             in (''Shouldn't have been last called with\<newline>'' @ e, l1))\<rparr>,
                      log)))"

text \<open>\<^verbatim>\<open>toBeCalledWith: util => ({compare(actual) {...}})\<close>.\<close>

definition toBeCalledWith ::
  "(val \<Rightarrow> string) \<Rightarrow> (val \<Rightarrow> val \<Rightarrow> bool) \<Rightarrow> target \<Rightarrow> val list \<Rightarrow> pp_log \<Rightarrow>
     (error + outcome) \<times> pp_log" where
  "toBeCalledWith pp equals actual arguments log =
     (let isSpy = isSpyLike actual in
      if \<not> isMockLike actual \<and> \<not> isSpy
      then (Inl (Error (''toBeCalledWith() should be used on a mock function or '' @
                        ''a jasmine spy.'')), log)
      else
        (case extractCalls actual of
           None \<Rightarrow> (Inl TypeError, log)
         | Some calls \<Rightarrow>
             let expected = Arr arguments;
                 pass = list_ex (\<lambda>call. equals call expected) calls
             in if \<not> pass
                then (Inr \<lparr>pass = pass,
                           message = Getter (\<lambda>l.
                             let (e, l1) = prettyPrint pp expected l;
                                 (a, l2) = getActualCalls pp calls CALL_PRINT_LIMIT l1
                             in (''Was not called with the expected values.\<newline>'' @
                                 ''Expected call:\<newline>'' @ e @ a, l2))\<rparr>, log)
                else (Inr \<lparr>pass = pass,
                           message = Getter (\<lambda>l.
                             let (e, l1) = prettyPrint pp expected l
                             in (''Shouldn't have been called with\<newline>'' @ e, l1))\<rparr>,
                      log)))"

section \<open>FailureCapture: the patched \<^verbatim>\<open>jasmine.buildExpectationResult\<close>\<close>

text \<open>
  Here the identity of objects and their later mutation matter, so object values are
  addresses into a store. A stored object has: the identities of the constructor
  functions \<open>F\<close> for which \<^verbatim>\<open>object instanceof F\<close> holds, the value read by
  \<^verbatim>\<open>object.nodeType\<close> (\<^verbatim>\<open>undefined\<close> when there is none), and its own properties.
\<close>

record cell =
  instance_of :: "nat list"
  nodeType :: ref
  properties :: "(string \<times> ref) list"

type_synonym store = "cell list"

definition deref :: "store \<Rightarrow> addr \<Rightarrow> cell option" where
  "deref h a = (if a < length h then Some (h ! a) else None)"

text \<open>A value is valid in a store when it is no object or names a stored object.\<close>

fun valid :: "store \<Rightarrow> ref \<Rightarrow> bool" where
  "valid h (Object a) = (a < length h)"
| "valid h _ = True"

text \<open>\<^verbatim>\<open>environment.global.Node\<close>: the identity of that function, if it is defined.\<close>

record environment =
  global_Node :: "nat option"

text \<open>\<^verbatim>\<open>object instanceof F\<close>; false of every value that is not an object.\<close>

fun instanceof :: "store \<Rightarrow> ref \<Rightarrow> nat \<Rightarrow> bool" where
  "instanceof h (Object a) F =
     (case deref h a of Some c \<Rightarrow> F \<in> set (instance_of c) | None \<Rightarrow> False)"
| "instanceof h _ F = False"

text \<open>\<^verbatim>\<open>object.nodeType\<close> of an object value.\<close>

fun get_nodeType :: "store \<Rightarrow> ref \<Rightarrow> ref" where
  "get_nodeType h (Object a) =
     (case deref h a of Some c \<Rightarrow> nodeType c | None \<Rightarrow> Undefined)"
| "get_nodeType h _ = Undefined"

text \<open>
  Modelled from the spec: \<^verbatim>\<open>jasmine.util.clone\<close> is part of the vendored engine, which
  is not among the sources. The specification calls its result a shallow structural copy:
  a new object with the same properties, whose values are shared with the original. An
  address that names no stored object (there is none in a running program) is returned
  as it is.
\<close>

fun clone :: "store \<Rightarrow> ref \<Rightarrow> ref \<times> store" where
  "clone h (Object a) =
     (case deref h a of
        Some c \<Rightarrow> (Object (length h), h @ [c])
      | None \<Rightarrow> (Object a, h))"
| "clone h v = (v, h)"

text \<open>
  The test
  \<^verbatim>\<open>environment.global.Node && object instanceof environment.global.Node && object.nodeType > 0\<close>.
  The comparison \<^verbatim>\<open>v > 0\<close> converts \<open>v\<close> to a number first; it is the parameter
  \<open>gt_zero\<close>.
\<close>

definition is_host_node :: "environment \<Rightarrow> (ref \<Rightarrow> bool) \<Rightarrow> store \<Rightarrow> ref \<Rightarrow> bool" where
  "is_host_node env gt_zero h object =
     (case global_Node env of
        None \<Rightarrow> False
      | Some Node \<Rightarrow> instanceof h object Node \<and> gt_zero (get_nodeType h object))"

text \<open>\<^verbatim>\<open>function shallowCopy(object)\<close>, returning the value and the store after it.\<close>

definition shallowCopy ::
  "environment \<Rightarrow> (ref \<Rightarrow> bool) \<Rightarrow> store \<Rightarrow> ref \<Rightarrow> ref \<times> store" where
  "shallowCopy env gt_zero h object =
     (if typeof object \<noteq> ''object'' \<or> object = Null \<or> is_host_node env gt_zero h object
      then (object, h)
      else clone h object)"

text \<open>
  The options the engine passes to its result builder. \<^verbatim>\<open>passed\<close>, \<^verbatim>\<open>expected\<close> and
  \<^verbatim>\<open>actual\<close> are the fields the patch reads; the others are the rest of the record.
\<close>

record options =
  passed :: ref
  expected :: ref
  actual :: ref

text \<open>
  \<^verbatim>\<open>jasmine.buildExpectationResult = function(options) {...}\<close>. The original builder
  \<^verbatim>\<open>jasmineBuildExpectationResult\<close> is the parameter of that name; it receives the
  store and the options as the patch leaves them.
\<close>

definition buildExpectationResult ::
  "(store \<Rightarrow> 'a options_scheme \<Rightarrow> 'r) \<Rightarrow> environment \<Rightarrow> (ref \<Rightarrow> bool) \<Rightarrow>
     store \<Rightarrow> 'a options_scheme \<Rightarrow> 'r" where
  "buildExpectationResult jasmineBuildExpectationResult env gt_zero h options =
     (if \<not> truthy (passed options)
      then
        let (e, h1) = shallowCopy env gt_zero h (expected options);
            options1 = options\<lparr>expected := e\<rparr>;
            (a, h2) = shallowCopy env gt_zero h1 (actual options1);
            options2 = options1\<lparr>actual := a\<rparr>
        in jasmineBuildExpectationResult h2 options2
      else jasmineBuildExpectationResult h options)"

text \<open>
  The case split of the specification: a value passes through when it is not of object
  type (a primitive; a function has type \<^verbatim>\<open>function\<close>), is \<^verbatim>\<open>null\<close>, or is an
  instance of the host's \<^verbatim>\<open>Node\<close> with a positive \<^verbatim>\<open>nodeType\<close>.
\<close>

definition passes_through :: "environment \<Rightarrow> (ref \<Rightarrow> bool) \<Rightarrow> store \<Rightarrow> ref \<Rightarrow> bool" where
  "passes_through env gt_zero h v =
     (typeof v \<noteq> ''object'' \<or> v = Null \<or>
      (\<exists>Node. global_Node env = Some Node \<and> instanceof h v Node \<and>
              gt_zero (get_nodeType h v)))"

text \<open>
  \<open>captured env gt_zero h h' v w\<close>: \<open>w\<close> is what the diagnostic records for \<open>v\<close>, where
  \<open>h\<close> is the store at the failure and \<open>h'\<close> the store the builder receives. Either \<open>v\<close>
  passes through and \<open>w\<close> is \<open>v\<close> itself, or \<open>w\<close> is an object that did not exist in \<open>h\<close>,
  holds the content \<open>v\<close> had in \<open>h\<close>, and keeps it whatever is stored later at an address
  of \<open>h\<close>.
\<close>

definition captured ::
  "environment \<Rightarrow> (ref \<Rightarrow> bool) \<Rightarrow> store \<Rightarrow> store \<Rightarrow> ref \<Rightarrow> ref \<Rightarrow> bool" where
  "captured env gt_zero h h' v w =
     (if passes_through env gt_zero h v then w = v
      else (\<exists>x y c. v = Object x \<and> w = Object y \<and> deref h x = Some c \<and>
              y \<noteq> x \<and> length h \<le> y \<and> deref h' y = Some c \<and>
              (\<forall>z c'. z < length h \<longrightarrow> deref (h'[z := c']) y = Some c)))"

section \<open>ResultAggregator\<close>

text \<open>
  The snapshot collaborator (\<^verbatim>\<open>jest-snapshot\<close>) is outside these sources. Its file
  object \<^verbatim>\<open>snapshotState.snapshot\<close> has some state \<open>'snap\<close>, and its three methods
  are parameters: \<^verbatim>\<open>hasUncheckedKeys()\<close> reads, \<^verbatim>\<open>removeUncheckedKeys()\<close> updates,
  \<^verbatim>\<open>save(update)\<close> updates and returns a status.
\<close>

record status =
  deleted :: bool

record 'snap snapshot_methods =
  snapshot_hasUncheckedKeys :: "'snap \<Rightarrow> bool"
  snapshot_removeUncheckedKeys :: "'snap \<Rightarrow> 'snap"
  snapshot_save :: "bool \<Rightarrow> 'snap \<Rightarrow> status \<times> 'snap"

record counters =
  added :: int
  matched :: int
  unmatched :: int
  updated :: int

text \<open>\<^verbatim>\<open>snapshotState\<close>: the counters and the file object \<^verbatim>\<open>snapshotState.snapshot\<close>.\<close>

record 'snap snapshotState = counters +
  currentSnapshot :: 'snap

text \<open>\<^verbatim>\<open>results.snapshot\<close>.\<close>

record snapshot_summary = counters +
  fileDeleted :: bool

text \<open>The reporter's results; the fields the aggregation writes, the rest left open.\<close>

record results =
  hasUncheckedKeys :: bool
  snapshot :: snapshot_summary

record config =
  updateSnapshot :: bool

text \<open>
  The callback of \<^verbatim>\<open>reporter.getResults().then(results => {...})\<close> at the end of
  \<^verbatim>\<open>jasmine2\<close>: it returns the results and the snapshot state it leaves behind.
\<close>

definition aggregate ::
  "'snap snapshot_methods \<Rightarrow> 'c config_scheme \<Rightarrow> 'snap snapshotState \<Rightarrow>
     'r results_scheme \<Rightarrow> 'r results_scheme \<times> 'snap snapshotState" where
  "aggregate methods config snapshotState results =
     (let snap0 = currentSnapshot snapshotState;
          update = updateSnapshot config;
          hadUncheckedKeys = snapshot_hasUncheckedKeys methods snap0;
          snap1 = (if update then snapshot_removeUncheckedKeys methods snap0 else snap0);
          (status, snap2) = snapshot_save methods update snap1;
          snapshotState' = snapshotState\<lparr>currentSnapshot := snap2\<rparr>
      in (results\<lparr>hasUncheckedKeys := \<not> deleted status \<and> hadUncheckedKeys,
                  snapshot := \<lparr>added = added snapshotState',
                               matched = matched snapshotState',
                               unmatched = unmatched snapshotState',
                               updated = updated snapshotState',
                               fileDeleted = deleted status\<rparr>\<rparr>,
          snapshotState'))"

section \<open>Example data\<close>

text \<open>
  Concrete collaborators and inputs, on which the theorems below are instantiated: a
  printer for numbers and flat arrays of numbers, targets of both tracking styles, a
  store with a plain object and a host node, and a snapshot file that is a list of
  unchecked keys.
\<close>

definition print_flat :: "val \<Rightarrow> string" where
  "print_flat v =
     (case v of
        Num n \<Rightarrow> number_to_string n
      | Object ob \<Rightarrow>
          (case iter ob of
             Some xs \<Rightarrow>
               ''['' @
               join '', ''
                 (map (\<lambda>x. case x of Num n \<Rightarrow> number_to_string n | _ \<Rightarrow> ''?'') xs) @
               '']''
           | None \<Rightarrow> ''{}'')
      | _ \<Rightarrow> ''?'')"

definition mock_with :: "val list \<Rightarrow> target" where
  "mock_with cs = \<lparr>calls_all = None, mock_calls = Some cs\<rparr>"

definition spy_with :: "val list \<Rightarrow> target" where
  "spy_with cs = \<lparr>calls_all = Some (map (\<lambda>a. \<lparr>args = a\<rparr>) cs), mock_calls = None\<rparr>"

definition number_gt_zero :: "ref \<Rightarrow> bool" where
  "number_gt_zero v = (case v of Num n \<Rightarrow> 0 < n | _ \<Rightarrow> False)"

definition example_store :: store where
  "example_store =
     [\<lparr>instance_of = [1], nodeType = Undefined, properties = [(''x'', Num 1)]\<rparr>,
      \<lparr>instance_of = [1, 5], nodeType = Num 1, properties = []\<rparr>]"

definition example_env :: environment where
  "example_env = \<lparr>global_Node = Some 5\<rparr>"

definition failed_options :: options where
  "failed_options = \<lparr>passed = Bool False, expected = Object 0, actual = Object 1\<rparr>"

definition passed_options :: options where
  "passed_options = \<lparr>passed = Bool True, expected = Object 0, actual = Object 1\<rparr>"

definition example_methods :: "string list snapshot_methods" where
  "example_methods =
     \<lparr>snapshot_hasUncheckedKeys = (\<lambda>keys. keys \<noteq> []),
      snapshot_removeUncheckedKeys = (\<lambda>keys. []),
      snapshot_save = (\<lambda>update keys. (\<lparr>deleted = (update \<and> keys = [])\<rparr>, keys))\<rparr>"

definition example_state :: "string list snapshotState" where
  "example_state =
     \<lparr>added = 1, matched = 2, unmatched = 0, updated = 0, currentSnapshot = [''stale 1'']\<rparr>"

definition empty_results :: results where
  "empty_results =
     \<lparr>hasUncheckedKeys = False,
      snapshot = \<lparr>added = 0, matched = 0, unmatched = 0, updated = 0, fileDeleted = False\<rparr>\<rparr>"

definition numbers_then_done :: "int list \<Rightarrow> nat \<Rightarrow> step" where
  "numbers_then_done xs n = (if n < length xs then Yield (Num (xs ! n)) else Done)"

text \<open>A generator object that yields 1 and 2: its \<^verbatim>\<open>Symbol.iterator\<close> returns itself.\<close>

definition generator_heap :: heap where
  "generator_heap =
     \<lparr>objects = [\<lparr>array = False, constructor_value = Fn 2, iterator_property = Self 0\<rparr>],
      iterators = [\<lparr>script = numbers_then_done [1, 2], position = 0, on_return = Finishes\<rparr>]\<rparr>"

text \<open>Two sets that both hold 1 and 2, and an array.\<close>

definition sets_heap :: heap where
  "sets_heap =
     \<lparr>objects =
        [\<lparr>array = False, constructor_value = Fn 3,
          iterator_property =
            Fresh \<lparr>script = numbers_then_done [1, 2], position = 0, on_return = NoReturn\<rparr>\<rparr>,
         \<lparr>array = False, constructor_value = Fn 3,
          iterator_property =
            Fresh \<lparr>script = numbers_then_done [1, 2], position = 0, on_return = NoReturn\<rparr>\<rparr>,
         \<lparr>array = True, constructor_value = Fn 4,
          iterator_property =
            Fresh \<lparr>script = numbers_then_done [1, 2], position = 0, on_return = NoReturn\<rparr>\<rparr>],
      iterators = []\<rparr>"

text \<open>
  An iterable that yields 1 for ever and whose iterator throws when it is closed, and an
  empty iterable of the same constructor.
\<close>

definition closing_heap :: heap where
  "closing_heap =
     \<lparr>objects =
        [\<lparr>array = False, constructor_value = Fn 1,
          iterator_property =
            Fresh \<lparr>script = (\<lambda>n. Yield (Num 1)), position = 0, on_return = ReturnRaises\<rparr>\<rparr>,
         \<lparr>array = False, constructor_value = Fn 1,
          iterator_property =
            Fresh \<lparr>script = (\<lambda>n. Done), position = 0, on_return = NoReturn\<rparr>\<rparr>],
      iterators = []\<rparr>"

definition same_value :: "tester list \<Rightarrow> ref \<Rightarrow> ref \<Rightarrow> bool" where
  "same_value testers x y = (x = y)"

lemmas sequence_example_defs =
  generator_heap_def sets_heap_def closing_heap_def same_value_def numbers_then_done_def
  sequence_applicable_def exposes_iteration_def symbol_iterator_def object_at_def isArray_def
  constructor_def hasIterator_def call_symbol_iterator_def iterators_of_def
  answer_def drawn_a_def drawn_b_def pair_equal_def pair_unequal_def end_together_def
  a_ends_first_def b_ends_first_def closes_def iterator_close_def

lemmas matcher_example_defs =
  print_flat_def mock_with_def spy_with_def Arr_def number_to_string_def digits.simps
  isSpyLike_def isMockLike_def extractCalls_def

lemmas store_example_defs =
  number_gt_zero_def example_store_def example_env_def failed_options_def passed_options_def

lemmas snapshot_example_defs = example_methods_def example_state_def empty_results_def

section \<open>Properties of SequenceEquality\<close>

lemma iterator_next_answer: "iterator_next h i = (answer h i 0, advance h i)"
  by (simp add: iterator_next_def answer_def advance_def Let_def)

lemma answer_advance_same: "answer (advance h i) i k = answer h i (Suc k)"
  by (simp add: advance_def iterator_next_def answer_def Let_def)

lemma answer_advance_other: "j \<noteq> i \<Longrightarrow> answer (advance h i) j k = answer h j k"
  by (simp add: advance_def iterator_next_def answer_def Let_def)

lemma closes_advance: "closes (advance h i) j = closes h j"
  by (cases "j = i")
     (simp_all add: closes_def iterator_close_def advance_def iterator_next_def Let_def
        split: on_return.splits)

lemma return_false_closes:
  "return_false h i = (if closes h i then Decides False else Throws, snd (iterator_close h i))"
  by (simp add: return_false_def closes_def split: prod.splits bool.splits)

lemma drawn_a_first: "for_of_step (answer h ai 0) = drawn_a h ai bi 0"
  by (simp add: drawn_a_def)

lemma drawn_b_first: "read_step (answer (advance h ai) bi 0) = drawn_b h ai bi 0"
  by (cases "ai = bi") (simp_all add: drawn_b_def answer_advance_same answer_advance_other)

lemma drawn_a_round:
  "drawn_a (advance (advance h ai) bi) ai bi n = drawn_a h ai bi (Suc n)"
  by (cases "ai = bi") (simp_all add: drawn_a_def answer_advance_same answer_advance_other)

lemma drawn_b_round:
  "drawn_b (advance (advance h ai) bi) ai bi n = drawn_b h ai bi (Suc n)"
  by (cases "ai = bi") (simp_all add: drawn_b_def answer_advance_same answer_advance_other)

lemma pair_equal_round:
  "pair_equal equals (advance (advance h ai) bi) ai bi n = pair_equal equals h ai bi (Suc n)"
  by (simp add: pair_equal_def drawn_a_round drawn_b_round)

text \<open>One round of the loop: it goes on after a pair of equal elements, and ends otherwise.\<close>

lemma lockstep_unfold:
  "lockstep equals ai bi h =
     (case drawn_a h ai bi 0 of
        Raise \<Rightarrow> Some (Throws, advance h ai)
      | Primitive \<Rightarrow> Some (Throws, advance h ai)
      | Done \<Rightarrow>
          (case drawn_b h ai bi 0 of
             Raise \<Rightarrow> Some (Throws, advance (advance h ai) bi)
           | Primitive \<Rightarrow> Some (Throws, advance (advance h ai) bi)
           | Done \<Rightarrow> Some (Decides True, advance (advance h ai) bi)
           | Yield _ \<Rightarrow> Some (Decides False, advance (advance h ai) bi))
      | Yield aValue \<Rightarrow>
          (case drawn_b h ai bi 0 of
             Raise \<Rightarrow> Some (Throws, snd (iterator_close (advance (advance h ai) bi) ai))
           | Primitive \<Rightarrow> Some (Throws, snd (iterator_close (advance (advance h ai) bi) ai))
           | Done \<Rightarrow> Some (return_false (advance (advance h ai) bi) ai)
           | Yield nextB_value \<Rightarrow>
               if \<not> equals [IterableEquality] aValue nextB_value
               then Some (return_false (advance (advance h ai) bi) ai)
               else lockstep equals ai bi (advance (advance h ai) bi)))"
  by (subst lockstep.simps)
     (simp add: iterator_next_answer drawn_a_first[of h ai bi] drawn_b_first
        cong: step.case_cong)

lemma lockstep_continue:
  "pair_equal equals h ai bi 0 \<Longrightarrow>
   lockstep equals ai bi h = lockstep equals ai bi (advance (advance h ai) bi)"
  by (subst lockstep_unfold) (simp add: pair_equal_def split: step.splits)

lemma lockstep_stop:
  "\<not> pair_equal equals h ai bi 0 \<Longrightarrow>
   \<exists>h'. lockstep equals ai bi h =
          Some (stop_verdict (closes h ai) (drawn_a h ai bi 0) (drawn_b h ai bi 0), h')"
  by (subst lockstep_unfold)
     (simp add: pair_equal_def return_false_closes closes_advance split: step.splits)

lemma lockstep_stops:
  "(\<forall>k<n. pair_equal equals h ai bi k) \<Longrightarrow> \<not> pair_equal equals h ai bi n \<Longrightarrow>
   \<exists>h'. lockstep equals ai bi h =
          Some (stop_verdict (closes h ai) (drawn_a h ai bi n) (drawn_b h ai bi n), h')"
proof (induction n arbitrary: h)
  case 0
  then show ?case by (simp add: lockstep_stop)
next
  case (Suc n)
  let ?h = "advance (advance h ai) bi"
  from Suc.prems have first: "pair_equal equals h ai bi 0" by blast
  have "\<forall>k<n. pair_equal equals ?h ai bi k"
    using Suc.prems(1) by (simp add: pair_equal_round)
  moreover have "\<not> pair_equal equals ?h ai bi n"
    using Suc.prems(2) by (simp add: pair_equal_round)
  ultimately obtain h' where
    "lockstep equals ai bi ?h =
       Some (stop_verdict (closes ?h ai) (drawn_a ?h ai bi n) (drawn_b ?h ai bi n), h')"
    using Suc.IH by blast
  then show ?case
    by (simp add: lockstep_continue[OF first] drawn_a_round drawn_b_round closes_advance)
qed

lemma lockstep_returns:
  assumes "lockstep equals0 ai0 bi0 h0 = Some r0"
  shows "\<exists>n. (\<forall>k<n. pair_equal equals0 h0 ai0 bi0 k) \<and> \<not> pair_equal equals0 h0 ai0 bi0 n \<and>
       fst r0 = stop_verdict (closes h0 ai0) (drawn_a h0 ai0 bi0 n) (drawn_b h0 ai0 bi0 n)"
proof (rule lockstep.raw_induct[OF _ assms])
  fix lockstep' :: "(tester list \<Rightarrow> ref \<Rightarrow> ref \<Rightarrow> bool) \<Rightarrow> nat \<Rightarrow> nat \<Rightarrow> heap \<Rightarrow>
                     (verdict \<times> heap) option"
    and equals ai bi h r
  assume IH: "\<And>equals ai bi h r. lockstep' equals ai bi h = Some r \<Longrightarrow>
     \<exists>n. (\<forall>k<n. pair_equal equals h ai bi k) \<and> \<not> pair_equal equals h ai bi n \<and>
       fst r = stop_verdict (closes h ai) (drawn_a h ai bi n) (drawn_b h ai bi n)"
  assume unfolded:
    "(case iterator_next h ai of (aStep, h1) \<Rightarrow>
        (case for_of_step aStep of
           Raise \<Rightarrow> Some (Throws, h1)
         | Primitive \<Rightarrow> Some (Throws, h1)
         | Done \<Rightarrow>
             (case iterator_next h1 bi of (bStep, h2) \<Rightarrow>
                (case read_step bStep of
                   Raise \<Rightarrow> Some (Throws, h2)
                 | Primitive \<Rightarrow> Some (Throws, h2)
                 | Done \<Rightarrow> Some (Decides True, h2)
                 | Yield _ \<Rightarrow> Some (Decides False, h2)))
         | Yield aValue \<Rightarrow>
             (case iterator_next h1 bi of (bStep, h2) \<Rightarrow>
                (case read_step bStep of
                   Raise \<Rightarrow> Some (Throws, snd (iterator_close h2 ai))
                 | Primitive \<Rightarrow> Some (Throws, snd (iterator_close h2 ai))
                 | Done \<Rightarrow> Some (return_false h2 ai)
                 | Yield nextB_value \<Rightarrow>
                     if \<not> equals [IterableEquality] aValue nextB_value
                     then Some (return_false h2 ai)
                     else lockstep' equals ai bi h2)))) = Some r"
  let ?h = "advance (advance h ai) bi"
  have body:
    "(case drawn_a h ai bi 0 of
        Raise \<Rightarrow> Some (Throws, advance h ai)
      | Primitive \<Rightarrow> Some (Throws, advance h ai)
      | Done \<Rightarrow>
          (case drawn_b h ai bi 0 of
             Raise \<Rightarrow> Some (Throws, ?h)
           | Primitive \<Rightarrow> Some (Throws, ?h)
           | Done \<Rightarrow> Some (Decides True, ?h)
           | Yield _ \<Rightarrow> Some (Decides False, ?h))
      | Yield aValue \<Rightarrow>
          (case drawn_b h ai bi 0 of
             Raise \<Rightarrow> Some (Throws, snd (iterator_close ?h ai))
           | Primitive \<Rightarrow> Some (Throws, snd (iterator_close ?h ai))
           | Done \<Rightarrow> Some (return_false ?h ai)
           | Yield nextB_value \<Rightarrow>
               if \<not> equals [IterableEquality] aValue nextB_value
               then Some (return_false ?h ai)
               else lockstep' equals ai bi ?h)) = Some r"
    using unfolded
    by (simp add: iterator_next_answer drawn_a_first[of h ai bi] drawn_b_first
          cong: step.case_cong)
  show "\<exists>n. (\<forall>k<n. pair_equal equals h ai bi k) \<and> \<not> pair_equal equals h ai bi n \<and>
       fst r = stop_verdict (closes h ai) (drawn_a h ai bi n) (drawn_b h ai bi n)"
  proof (cases "pair_equal equals h ai bi 0")
    case False
    have "fst r = stop_verdict (closes h ai) (drawn_a h ai bi 0) (drawn_b h ai bi 0)"
      using body False
      by (cases "drawn_a h ai bi 0"; cases "drawn_b h ai bi 0")
         (auto simp: pair_equal_def return_false_closes closes_advance)
    with False show ?thesis by (intro exI[of _ 0]) simp
  next
    case True
    then obtain x y where
      "drawn_a h ai bi 0 = Yield x" "drawn_b h ai bi 0 = Yield y" "equals [IterableEquality] x y"
      by (auto simp: pair_equal_def split: step.splits)
    with body have "lockstep' equals ai bi ?h = Some r"
      by simp
    from IH[OF this] obtain n where
      nn: "(\<forall>k<n. pair_equal equals ?h ai bi k) \<and> \<not> pair_equal equals ?h ai bi n \<and>
           fst r = stop_verdict (closes ?h ai) (drawn_a ?h ai bi n) (drawn_b ?h ai bi n)"
      by (rule exE)
    then have
      n: "\<forall>k<n. pair_equal equals ?h ai bi k" "\<not> pair_equal equals ?h ai bi n"
         "fst r = stop_verdict (closes ?h ai) (drawn_a ?h ai bi n) (drawn_b ?h ai bi n)"
      by simp_all
    have "\<forall>k<Suc n. pair_equal equals h ai bi k"
    proof (intro allI impI)
      fix k assume "k < Suc n"
      then show "pair_equal equals h ai bi k"
        using True n(1) by (cases k) (simp_all add: pair_equal_round)
    qed
    moreover have "\<not> pair_equal equals h ai bi (Suc n)"
      using n(2) by (simp add: pair_equal_round)
    moreover have "fst r = stop_verdict (closes h ai) (drawn_a h ai bi (Suc n))
                                         (drawn_b h ai bi (Suc n))"
      using n(3) by (simp add: drawn_a_round drawn_b_round closes_advance)
    ultimately show ?thesis by (intro exI[of _ "Suc n"] conjI)
  qed
qed

lemma stop_verdict_not_Defers: "stop_verdict ok A B \<noteq> Defers"
  by (cases A; cases B) simp_all

lemma round_decides_True:
  "\<not> pair_equal equals h ai bi n \<and>
   stop_verdict (closes h ai) (drawn_a h ai bi n) (drawn_b h ai bi n) = Decides True \<longleftrightarrow>
   end_together h ai bi n"
  by (cases "drawn_a h ai bi n"; cases "drawn_b h ai bi n")
     (simp_all add: pair_equal_def end_together_def)

lemma round_decides_False:
  "\<not> pair_equal equals h ai bi n \<and>
   stop_verdict (closes h ai) (drawn_a h ai bi n) (drawn_b h ai bi n) = Decides False \<longleftrightarrow>
   a_ends_first h ai bi n \<or>
   (closes h ai \<and> (b_ends_first h ai bi n \<or> pair_unequal equals h ai bi n))"
  by (cases "drawn_a h ai bi n"; cases "drawn_b h ai bi n")
     (simp_all add: pair_equal_def pair_unequal_def a_ends_first_def b_ends_first_def)

lemma round_throws_on_close:
  "\<not> closes h ai \<Longrightarrow> b_ends_first h ai bi n \<or> pair_unequal equals h ai bi n \<Longrightarrow>
   \<not> pair_equal equals h ai bi n \<and>
   stop_verdict (closes h ai) (drawn_a h ai bi n) (drawn_b h ai bi n) = Throws"
  by (cases "drawn_a h ai bi n"; cases "drawn_b h ai bi n")
     (simp_all add: pair_equal_def pair_unequal_def b_ends_first_def)

text \<open>The loop returns a verdict exactly when some round stops with it.\<close>

lemma lockstep_verdict_iff:
  "(\<exists>h'. lockstep equals ai bi h = Some (v, h')) \<longleftrightarrow>
   (\<exists>n. (\<forall>k<n. pair_equal equals h ai bi k) \<and> \<not> pair_equal equals h ai bi n \<and>
        stop_verdict (closes h ai) (drawn_a h ai bi n) (drawn_b h ai bi n) = v)"
proof
  assume "\<exists>h'. lockstep equals ai bi h = Some (v, h')"
  then obtain h' where "lockstep equals ai bi h = Some (v, h')" ..
  from lockstep_returns[OF this] show
    "\<exists>n. (\<forall>k<n. pair_equal equals h ai bi k) \<and> \<not> pair_equal equals h ai bi n \<and>
         stop_verdict (closes h ai) (drawn_a h ai bi n) (drawn_b h ai bi n) = v"
    by auto
next
  assume "\<exists>n. (\<forall>k<n. pair_equal equals h ai bi k) \<and> \<not> pair_equal equals h ai bi n \<and>
              stop_verdict (closes h ai) (drawn_a h ai bi n) (drawn_b h ai bi n) = v"
  then obtain n where
    "\<forall>k<n. pair_equal equals h ai bi k" "\<not> pair_equal equals h ai bi n"
    "stop_verdict (closes h ai) (drawn_a h ai bi n) (drawn_b h ai bi n) = v"
    by auto
  with lockstep_stops[of n equals h ai bi] show "\<exists>h'. lockstep equals ai bi h = Some (v, h')"
    by auto
qed

lemma lockstep_True_iff:
  "(\<exists>h'. lockstep equals ai bi h = Some (Decides True, h')) \<longleftrightarrow>
   (\<exists>n. (\<forall>k<n. pair_equal equals h ai bi k) \<and> end_together h ai bi n)"
  unfolding lockstep_verdict_iff by (simp only: round_decides_True)

lemma lockstep_False_iff:
  "(\<exists>h'. lockstep equals ai bi h = Some (Decides False, h')) \<longleftrightarrow>
   (\<exists>n. (\<forall>k<n. pair_equal equals h ai bi k) \<and>
        (a_ends_first h ai bi n \<or>
         (closes h ai \<and> (b_ends_first h ai bi n \<or> pair_unequal equals h ai bi n))))"
  unfolding lockstep_verdict_iff by (simp only: round_decides_False)

lemma lockstep_Throws_on_close:
  assumes "\<not> closes h ai"
      and "\<forall>k<n. pair_equal equals h ai bi k"
      and "b_ends_first h ai bi n \<or> pair_unequal equals h ai bi n"
  shows "\<exists>h'. lockstep equals ai bi h = Some (Throws, h')"
  unfolding lockstep_verdict_iff
  using assms(2) round_throws_on_close[OF assms(1,3)] by blast

lemma lockstep_never_Defers: "lockstep equals ai bi h \<noteq> Some (Defers, h')"
  using lockstep_returns[of equals ai bi h "(Defers, h')"] stop_verdict_not_Defers
  by (metis fst_conv)

text \<open>The loop does not return exactly when every round pairs two equal elements.\<close>

lemma lockstep_diverges_iff:
  "lockstep equals ai bi h = None \<longleftrightarrow> (\<forall>n. pair_equal equals h ai bi n)"
proof
  assume none: "lockstep equals ai bi h = None"
  show "\<forall>n. pair_equal equals h ai bi n"
  proof (rule ccontr)
    assume "\<not> (\<forall>n. pair_equal equals h ai bi n)"
    then obtain m where m: "\<not> pair_equal equals h ai bi m" by blast
    define n where "n = (LEAST m. \<not> pair_equal equals h ai bi m)"
    have stop: "\<not> pair_equal equals h ai bi n"
      unfolding n_def using m by (rule LeastI)
    have "\<forall>k<n. pair_equal equals h ai bi k"
      unfolding n_def using not_less_Least by blast
    from lockstep_stops[OF this stop] none show False by simp
  qed
next
  assume all: "\<forall>n. pair_equal equals h ai bi n"
  show "lockstep equals ai bi h = None"
  proof (cases "lockstep equals ai bi h")
    case None
    then show ?thesis .
  next
    case (Some r)
    from lockstep_returns[OF this] all show ?thesis by blast
  qed
qed

lemma applicable_iff_guard:
  "sequence_applicable h a b \<longleftrightarrow>
     \<not> (typeof a \<noteq> ''object'' \<or> typeof b \<noteq> ''object'' \<or> isArray h a \<or> isArray h b \<or>
        \<not> hasIterator h a \<or> \<not> hasIterator h b)"
  unfolding sequence_applicable_def exposes_iteration_def hasIterator_def
  by (cases a; cases b) auto

lemma iterableEquality_not_applicable:
  "\<not> sequence_applicable h a b \<Longrightarrow> iterableEquality equals a b h = Some (Defers, h)"
  unfolding applicable_iff_guard by (simp add: iterableEquality_def)

lemma iterableEquality_constructors:
  "sequence_applicable h a b \<Longrightarrow> constructor h a \<noteq> constructor h b \<Longrightarrow>
   iterableEquality equals a b h = Some (Decides False, h)"
  unfolding applicable_iff_guard by (simp add: iterableEquality_def)

lemma iterableEquality_walk:
  "sequence_applicable h a b \<Longrightarrow> constructor h a = constructor h b \<Longrightarrow>
   iterators_of h a b = Some (ai, bi, h2) \<Longrightarrow>
   iterableEquality equals a b h = lockstep equals ai bi h2"
  unfolding applicable_iff_guard
  by (auto simp: iterableEquality_def iterators_of_def split: prod.splits option.splits)

lemma iterableEquality_throws_early:
  "sequence_applicable h a b \<Longrightarrow> constructor h a = constructor h b \<Longrightarrow>
   iterators_of h a b = None \<Longrightarrow>
   \<exists>h'. iterableEquality equals a b h = Some (Throws, h')"
  unfolding applicable_iff_guard
  by (auto simp: iterableEquality_def iterators_of_def split: prod.splits option.splits)

lemma iterableEquality_never_Defers:
  assumes "sequence_applicable h a b"
  shows "iterableEquality equals a b h \<noteq> Some (Defers, h')"
proof (cases "constructor h a = constructor h b")
  case False
  with assms show ?thesis by (simp add: iterableEquality_constructors)
next
  case True
  show ?thesis
  proof (cases "iterators_of h a b")
    case None
    with iterableEquality_throws_early[OF assms True, of equals] show ?thesis by auto
  next
    case (Some t)
    then obtain ai bi h2 where "iterators_of h a b = Some (ai, bi, h2)"
      by (cases t) auto
    with assms True show ?thesis
      by (simp add: iterableEquality_walk lockstep_never_Defers)
  qed
qed




section \<open>Properties of the diagnostic renderer\<close>

lemma map_calls_prettyPrint:
  "map_calls (prettyPrint pp) xs l = (map pp xs, l @ xs)"
  by (induction xs arbitrary: l) (simp_all add: prettyPrint_def)

lemma slice_last:
  "0 < limit \<Longrightarrow> slice (- limit) xs = drop (length xs - nat limit) xs"
  by (auto simp: slice_def Let_def max_def intro!: arg_cong2[where f=drop])

lemma getActualCalls_unfold:
  "getActualCalls pp calls limit l =
     (''\<newline>Actual call'' @ (if length calls = 1 then '''' else ''s'') @ '':\<newline>'' @
      join '',\<newline>'' (rev (map pp (slice (- limit) calls))) @
      (if int (length calls) - limit > 0
       then ''\<newline>and '' @ number_to_string (int (length calls) - limit) @ '' other call'' @
            (if int (length calls) - limit = 1 then '''' else ''s'') @ ''.''
       else ''''),
      l @ slice (- limit) calls)"
  by (simp add: getActualCalls_def Let_def map_calls_prettyPrint)

lemma getActualCalls_positive_limit:
  assumes "0 < limit"
  shows "getActualCalls pp calls limit l =
     (''\<newline>Actual call'' @ (if length calls = 1 then '''' else ''s'') @ '':\<newline>'' @
      join '',\<newline>'' (map pp (rev (drop (length calls - nat limit) calls))) @
      (if int (length calls) > limit
       then ''\<newline>and '' @ number_to_string (int (length calls) - limit) @ '' other call'' @
            (if int (length calls) - limit = 1 then '''' else ''s'') @ ''.''
       else ''''),
      l @ drop (length calls - nat limit) calls)"
  using assms by (simp add: getActualCalls_unfold slice_last rev_map)

text \<open>
  C6. For every call list and every positive limit, \<^verbatim>\<open>getActualCalls\<close> returns: the
  header \<^verbatim>\<open>Actual call\<close> when there is exactly one call in total and \<^verbatim>\<open>Actual calls\<close>
  otherwise; then the last \<open>limit\<close> calls (all of them when there are fewer), most recent
  first, each pretty-printed, joined by a comma and a newline; then, exactly when there
  are more than \<open>limit\<close> calls, the number of older calls left out, with \<^verbatim>\<open>call\<close> in
  the singular when that number is one. The pretty-printer runs on the calls shown and
  on nothing else.
\<close>

theorem getActualCalls_renders:
  assumes "0 < limit"
  shows "getActualCalls pp calls limit l =
     (''\<newline>Actual call'' @ (if length calls = 1 then '''' else ''s'') @ '':\<newline>'' @
      join '',\<newline>'' (map pp (rev (drop (length calls - nat limit) calls))) @
      (if int (length calls) > limit
       then ''\<newline>and '' @ number_to_string (int (length calls) - limit) @ '' other call'' @
            (if int (length calls) - limit = 1 then '''' else ''s'') @ ''.''
       else ''''),
      l @ drop (length calls - nat limit) calls)"
  using assms by (rule getActualCalls_positive_limit)

theorem getActualCalls_renders_witness:
  "(0::int) < 3 \<and>
   getActualCalls print_flat [Num 1, Num 2, Num 3, Num 4] 3 [] =
     (''\<newline>Actual calls:\<newline>4,\<newline>3,\<newline>2\<newline>and 1 other call.'', [Num 2, Num 3, Num 4]) \<and>
   getActualCalls print_flat [Num 7] 3 [] = (''\<newline>Actual call:\<newline>7'', [Num 7])"
  using getActualCalls_renders[of 3 print_flat "[Num 1, Num 2, Num 3, Num 4]" "[]"]
        getActualCalls_renders[of 3 print_flat "[Num 7]" "[]"]
  by (simp add: matcher_example_defs)

section \<open>Properties of the call matchers\<close>

lemma trackable_extract:
  "isSpyLike t \<or> isMockLike t \<Longrightarrow> \<exists>calls. extractCalls t = Some calls"
  by (auto simp: isSpyLike_def isMockLike_def extractCalls_def)

lemma extract_trackable:
  "extractCalls t = Some calls \<Longrightarrow> isSpyLike t \<or> isMockLike t"
  by (auto simp: isSpyLike_def isMockLike_def extractCalls_def split: if_splits)

text \<open>What each \<^verbatim>\<open>compare\<close> returns on a target that tracks calls.\<close>

lemma toBeCalledWith_eval:
  assumes "extractCalls t = Some calls"
  shows "toBeCalledWith pp equals t extra l =
     (Inr \<lparr>pass = list_ex (\<lambda>call. equals call (Arr extra)) calls,
           message = (if list_ex (\<lambda>call. equals call (Arr extra)) calls
             then Getter (\<lambda>l. let (e, l1) = prettyPrint pp (Arr extra) l
                             in (''Shouldn't have been called with\<newline>'' @ e, l1))
             else Getter (\<lambda>l. let (e, l1) = prettyPrint pp (Arr extra) l;
                                 (a, l2) = getActualCalls pp calls CALL_PRINT_LIMIT l1
                             in (''Was not called with the expected values.\<newline>'' @
                                 ''Expected call:\<newline>'' @ e @ a, l2)))\<rparr>, l)"
  using assms extract_trackable[OF assms]
  by (auto simp: toBeCalledWith_def Let_def)

lemma lastCalledWith_eval:
  assumes "extractCalls t = Some calls"
  shows "lastCalledWith pp equals t extra l =
     (Inr \<lparr>pass = equals (index calls (int (length calls) - 1)) (Arr extra),
           message = (if equals (index calls (int (length calls) - 1)) (Arr extra)
             then Getter (\<lambda>l. let (e, l1) = prettyPrint pp (Arr extra) l
                             in (''Shouldn't have been last called with\<newline>'' @ e, l1))
             else Getter (\<lambda>l. let (e, l1) = prettyPrint pp (Arr extra) l;
                                 (a, l2) = getActualCalls pp calls LAST_CALL_PRINT_LIMIT l1
                             in (''Wasn't last called with the expected values.\<newline>'' @
                                 ''Expected call:\<newline>'' @ e @ a, l2)))\<rparr>, l)"
  using assms extract_trackable[OF assms]
  by (auto simp: lastCalledWith_def Let_def)

lemma toBeCalled_eval:
  assumes "extractCalls t = Some calls" and "\<not> truthy arg"
  shows "toBeCalled t arg l =
     (Inr \<lparr>pass = (calls \<noteq> []),
           message = Precomputed (if calls \<noteq> [] then ''Expected not to be called''
                                  else ''Expected to be called at least once'')\<rparr>, l)"
  using assms extract_trackable[OF assms(1)]
  by (auto simp: toBeCalled_def Let_def)

lemma toBeCalled_truthy_throws:
  "truthy arg \<Longrightarrow> toBeCalled t arg l =
     (Inl (Error ''toBeCalled() does not accept parameters, use toBeCalledWith instead.''), l)"
  by (simp add: toBeCalled_def)

lemma toBeCalled_untracked_throws:
  "\<not> truthy arg \<Longrightarrow> \<not> isSpyLike t \<Longrightarrow> \<not> isMockLike t \<Longrightarrow>
   toBeCalled t arg l =
     (Inl (Error ''toBeCalled() should be used on a mock function or a jasmine spy.''), l)"
  by (simp add: toBeCalled_def)

text \<open>
  C4. For every target that is spy-like or mock-like and every list of expected
  arguments, \<^verbatim>\<open>toBeCalledWith\<close> returns an outcome (it does not throw) that passes if
  and only if some recorded call equals the array of the expected arguments under the
  host equality. When it does not pass, reading its message gives
  \<^verbatim>\<open>Was not called with the expected values.\<close>, a newline, \<^verbatim>\<open>Expected call:\<close>, a
  newline, the pretty-printed expected array, and then what \<^verbatim>\<open>getActualCalls\<close> renders
  for the recorded calls with limit 3.
\<close>

theorem toBeCalledWith_passes_iff_some_call_equals:
  assumes "isSpyLike t \<or> isMockLike t"
  shows "\<exists>calls r. extractCalls t = Some calls \<and>
           toBeCalledWith pp equals t extra l = (Inr r, l) \<and>
           (pass r \<longleftrightarrow> (\<exists>call \<in> set calls. equals call (Arr extra))) \<and>
           (\<not> pass r \<longrightarrow>
              (\<forall>l'. fst (read_message (message r) l') =
                 ''Was not called with the expected values.\<newline>'' @
                 ''Expected call:\<newline>'' @ pp (Arr extra) @
                 fst (getActualCalls pp calls 3 (l' @ [Arr extra]))))"
proof -
  from assms obtain calls where c: "extractCalls t = Some calls"
    using trackable_extract by blast
  show ?thesis
    by (rule exI[of _ calls], rule exI, intro conjI, rule c, rule toBeCalledWith_eval[OF c])
       (simp_all add: list_ex_iff prettyPrint_def CALL_PRINT_LIMIT_def split_beta)
qed

theorem toBeCalledWith_passes_iff_some_call_equals_witness:
  "(isSpyLike (mock_with [Arr [Num 1, Num 2], Arr [Num 3, Num 4]]) \<or>
    isMockLike (mock_with [Arr [Num 1, Num 2], Arr [Num 3, Num 4]])) \<and>
   map_sum id pass
     (fst (toBeCalledWith print_flat (=) (mock_with [Arr [Num 1, Num 2], Arr [Num 3, Num 4]])
             [Num 1, Num 2] [])) = Inr True \<and>
   (isSpyLike (spy_with [Arr [Num 3, Num 4]]) \<or> isMockLike (spy_with [Arr [Num 3, Num 4]])) \<and>
   map_sum id (\<lambda>r. (pass r, fst (read_message (message r) [])))
     (fst (toBeCalledWith print_flat (=) (spy_with [Arr [Num 3, Num 4]]) [Num 1, Num 2] [])) =
     Inr (False, ''Was not called with the expected values.\<newline>Expected call:\<newline>[1, 2]\<newline>Actual call:\<newline>[3, 4]'')"
  using toBeCalledWith_passes_iff_some_call_equals
          [of "mock_with [Arr [Num 1, Num 2], Arr [Num 3, Num 4]]" print_flat "(=)"
              "[Num 1, Num 2]" "[]"]
        toBeCalledWith_passes_iff_some_call_equals
          [of "spy_with [Arr [Num 3, Num 4]]" print_flat "(=)" "[Num 1, Num 2]" "[]"]
  by (simp add: matcher_example_defs toBeCalledWith_def getActualCalls_def
        CALL_PRINT_LIMIT_def prettyPrint_def slice_def)

lemma index_last: "calls \<noteq> [] \<Longrightarrow> index calls (int (length calls) - 1) = last calls"
  by (simp add: index_def last_conv_nth nat_diff_distrib')

lemma drop_to_last: "calls \<noteq> [] \<Longrightarrow> drop (length calls - Suc 0) calls = [last calls]"
  by (metis append_butlast_last_id append_eq_conv_conj length_butlast One_nat_def)

text \<open>
  C5. For every target that tracks a non-empty sequence of calls and every list of
  expected arguments, \<^verbatim>\<open>lastCalledWith\<close> returns an outcome that passes if and only if
  the last recorded call equals the array of the expected arguments under the host
  equality. When it does not pass, reading its message renders one recorded call, the
  last one, and no other: the pretty-printer runs on the expected array and on the last
  call only, and the older calls appear as a count.
\<close>

theorem lastCalledWith_passes_iff_last_call_equals:
  assumes "extractCalls t = Some calls" and "calls \<noteq> []"
  shows "\<exists>r. lastCalledWith pp equals t extra l = (Inr r, l) \<and>
           (pass r \<longleftrightarrow> equals (last calls) (Arr extra)) \<and>
           (\<not> pass r \<longrightarrow>
              (\<forall>l'. read_message (message r) l' =
                 (''Wasn't last called with the expected values.\<newline>'' @
                  ''Expected call:\<newline>'' @ pp (Arr extra) @
                  ''\<newline>Actual call'' @ (if length calls = 1 then '''' else ''s'') @
                  '':\<newline>'' @ pp (last calls) @
                  (if 1 < length calls
                   then ''\<newline>and '' @ number_to_string (int (length calls) - 1) @
                        '' other call'' @ (if length calls = 2 then '''' else ''s'') @ ''.''
                   else ''''),
                  l' @ [Arr extra, last calls])))"
proof -
  have two: "(int (length calls) = 2) = (length calls = 2)" by linarith
  show ?thesis
    by (rule exI, intro conjI, rule lastCalledWith_eval[OF assms(1)])
       (simp_all add: index_last[OF assms(2)] drop_to_last[OF assms(2)] prettyPrint_def
          LAST_CALL_PRINT_LIMIT_def split_beta getActualCalls_positive_limit two)
qed

theorem lastCalledWith_passes_iff_last_call_equals_witness:
  "extractCalls (mock_with [Arr [Num 1], Arr [Num 2], Arr [Num 3]]) =
     Some [Arr [Num 1], Arr [Num 2], Arr [Num 3]] \<and>
   [Arr [Num 1], Arr [Num 2], Arr [Num 3]] \<noteq> [] \<and>
   map_sum id pass
     (fst (lastCalledWith print_flat (=) (mock_with [Arr [Num 1], Arr [Num 2], Arr [Num 3]])
             [Num 3] [])) = Inr True \<and>
   map_sum id (\<lambda>r. (pass r, read_message (message r) []))
     (fst (lastCalledWith print_flat (=) (mock_with [Arr [Num 1], Arr [Num 2], Arr [Num 3]])
             [Num 2] [])) =
     Inr (False,
          ''Wasn't last called with the expected values.\<newline>Expected call:\<newline>[2]\<newline>Actual calls:\<newline>[3]\<newline>and 2 other calls.'',
          [Arr [Num 2], Arr [Num 3]])"
  using lastCalledWith_passes_iff_last_call_equals
          [of "mock_with [Arr [Num 1], Arr [Num 2], Arr [Num 3]]"
              "[Arr [Num 1], Arr [Num 2], Arr [Num 3]]" print_flat "(=)" "[Num 3]" "[]"]
        lastCalledWith_passes_iff_last_call_equals
          [of "mock_with [Arr [Num 1], Arr [Num 2], Arr [Num 3]]"
              "[Arr [Num 1], Arr [Num 2], Arr [Num 3]]" print_flat "(=)" "[Num 2]" "[]"]
  by (simp add: matcher_example_defs lastCalledWith_def getActualCalls_def
        LAST_CALL_PRINT_LIMIT_def prettyPrint_def slice_def index_def)

text \<open>
  C7. The claim is that \<^verbatim>\<open>toBeCalled\<close> throws its usage error for every extra
  argument. The guard is \<^verbatim>\<open>if (expected)\<close>, so an extra argument that is falsy goes
  through: on a mock function with one recorded call, \<^verbatim>\<open>toBeCalled(0)\<close> returns a
  passing outcome, where the message of the error says that the matcher accepts no
  parameters.
\<close>

theorem toBeCalled_accepts_falsy_argument:
  "toBeCalled (mock_with [Arr []]) (Num 0) [] =
     (Inr \<lparr>pass = True, message = Precomputed ''Expected not to be called''\<rparr>, [])"
  by (simp add: toBeCalled_def mock_with_def isSpyLike_def isMockLike_def extractCalls_def)

text \<open>
  C8, as claimed: the message of all three matchers is an accessor. It fails for
  \<^verbatim>\<open>toBeCalled\<close>, whose outcome stores the string itself.
\<close>

theorem toBeCalled_message_counterexample:
  "toBeCalled (mock_with []) Undefined [] =
     (Inr \<lparr>pass = False, message = Precomputed ''Expected to be called at least once''\<rparr>, []) \<and>
   \<not> is_accessor (Precomputed ''Expected to be called at least once'')"
  by (simp add: toBeCalled_def mock_with_def isSpyLike_def isMockLike_def extractCalls_def)

lemma compare_keeps_log:
  "snd (toBeCalled t arg l) = l"
  "snd (lastCalledWith pp equals t extra l) = l"
  "snd (toBeCalledWith pp equals t extra l) = l"
  by (simp_all add: toBeCalled_def lastCalledWith_def toBeCalledWith_def Let_def
        split: option.splits)

lemma lastCalledWith_accessor:
  assumes "fst (lastCalledWith pp equals t extra l) = Inr r"
  shows "is_accessor (message r) \<and>
         (\<forall>l'. \<exists>more. snd (read_message (message r) l') = l' @ Arr extra # more)"
proof -
  from assms obtain calls where c: "extractCalls t = Some calls"
    by (auto simp: lastCalledWith_def Let_def split: if_splits option.splits)
  show ?thesis
    using assms unfolding lastCalledWith_eval[OF c]
    by (auto simp: prettyPrint_def getActualCalls_unfold)
qed

lemma toBeCalledWith_accessor:
  assumes "fst (toBeCalledWith pp equals t extra l) = Inr r"
  shows "is_accessor (message r) \<and>
         (\<forall>l'. \<exists>more. snd (read_message (message r) l') = l' @ Arr extra # more)"
proof -
  from assms obtain calls where c: "extractCalls t = Some calls"
    by (auto simp: toBeCalledWith_def Let_def split: if_splits option.splits)
  show ?thesis
    using assms unfolding toBeCalledWith_eval[OF c]
    by (auto simp: prettyPrint_def getActualCalls_unfold)
qed

lemma toBeCalled_precomputed:
  assumes "fst (toBeCalled t arg l) = Inr r"
  shows "\<not> is_accessor (message r) \<and> (\<forall>l'. snd (read_message (message r) l') = l')"
  using assms
  by (auto simp: toBeCalled_def Let_def split: if_splits option.splits)

text \<open>
  C8, amended. In all three matchers \<^verbatim>\<open>compare\<close> never invokes the pretty-printer,
  whatever it returns or throws. The message of every outcome of \<^verbatim>\<open>lastCalledWith\<close>
  and of \<^verbatim>\<open>toBeCalledWith\<close> is an accessor, and the pretty-printer runs when the
  message is read (first on the expected array). The message of every outcome of
  \<^verbatim>\<open>toBeCalled\<close> is a string computed in \<^verbatim>\<open>compare\<close>, one of two constants, and
  reading it invokes nothing.
\<close>

theorem messages_lazy_where_rendered:
  "snd (toBeCalled t arg l) = l \<and>
   snd (lastCalledWith pp equals t extra l) = l \<and>
   snd (toBeCalledWith pp equals t extra l) = l \<and>
   (\<forall>r. fst (lastCalledWith pp equals t extra l) = Inr r \<longrightarrow>
        is_accessor (message r) \<and>
        (\<forall>l'. \<exists>more. snd (read_message (message r) l') = l' @ Arr extra # more)) \<and>
   (\<forall>r. fst (toBeCalledWith pp equals t extra l) = Inr r \<longrightarrow>
        is_accessor (message r) \<and>
        (\<forall>l'. \<exists>more. snd (read_message (message r) l') = l' @ Arr extra # more)) \<and>
   (\<forall>r. fst (toBeCalled t arg l) = Inr r \<longrightarrow>
        \<not> is_accessor (message r) \<and> (\<forall>l'. snd (read_message (message r) l') = l'))"
  by (simp add: compare_keeps_log lastCalledWith_accessor toBeCalledWith_accessor
        toBeCalled_precomputed)

theorem messages_lazy_where_rendered_witness:
  "snd (toBeCalledWith print_flat (=) (mock_with [Arr [Num 3]]) [Num 1] []) = [] \<and>
   map_sum id (\<lambda>r. (is_accessor (message r), snd (read_message (message r) [])))
     (fst (toBeCalledWith print_flat (=) (mock_with [Arr [Num 3]]) [Num 1] [])) =
     Inr (True, [Arr [Num 1], Arr [Num 3]]) \<and>
   map_sum id (\<lambda>r. (is_accessor (message r), snd (read_message (message r) [])))
     (fst (lastCalledWith print_flat (=) (mock_with [Arr [Num 3]]) [Num 3] [])) =
     Inr (True, [Arr [Num 3]]) \<and>
   map_sum id (\<lambda>r. (is_accessor (message r), snd (read_message (message r) [])))
     (fst (toBeCalled (mock_with [Arr [Num 3]]) Undefined [])) = Inr (False, [])"
  using messages_lazy_where_rendered
          [of "mock_with [Arr [Num 3]]" Undefined "[]" print_flat "(=)" "[Num 1]"]
        messages_lazy_where_rendered
          [of "mock_with [Arr [Num 3]]" Undefined "[]" print_flat "(=)" "[Num 3]"]
  by (simp add: matcher_example_defs toBeCalledWith_def lastCalledWith_def toBeCalled_def
        index_def getActualCalls_def CALL_PRINT_LIMIT_def LAST_CALL_PRINT_LIMIT_def
        prettyPrint_def slice_def)

text \<open>
  C9. For every target that tracks calls and has recorded none, and every list of
  expected arguments, neither matcher throws. \<^verbatim>\<open>toBeCalledWith\<close> returns an outcome
  that does not pass, whatever the host equality is: no call is there to match.
  \<^verbatim>\<open>lastCalledWith\<close> does not fail on the index \<^verbatim>\<open>calls.length - 1\<close>, which is out of
  range: it reads \<^verbatim>\<open>undefined\<close> there and returns the outcome of comparing
  \<^verbatim>\<open>undefined\<close> with the array of the expected arguments. Under the host equality,
  deep equality, that outcome does not pass: \<^verbatim>\<open>undefined\<close> is not an array.
\<close>

theorem zero_calls_no_error:
  assumes "extractCalls t = Some []"
  shows "(\<exists>r. toBeCalledWith pp equals t extra l = (Inr r, l) \<and> \<not> pass r) \<and>
         (\<exists>r. lastCalledWith pp equals t extra l = (Inr r, l) \<and>
              pass r = equals Undefined (Arr extra)) \<and>
         (\<exists>r. lastCalledWith pp deep_equals t extra l = (Inr r, l) \<and> \<not> pass r)"
  by (simp add: toBeCalledWith_eval[OF assms] lastCalledWith_eval[OF assms] index_def
        deep_equals_def Arr_def)

theorem zero_calls_no_error_witness:
  "extractCalls (mock_with []) = Some [] \<and>
   extractCalls (spy_with []) = Some [] \<and>
   map_sum id pass (fst (toBeCalledWith print_flat deep_equals (mock_with []) [Num 1] [])) =
     Inr False \<and>
   map_sum id pass (fst (lastCalledWith print_flat deep_equals (mock_with []) [Num 1] [])) =
     Inr False \<and>
   map_sum id pass (fst (lastCalledWith print_flat deep_equals (spy_with []) [] [])) =
     Inr False"
  using zero_calls_no_error[of "mock_with []" print_flat deep_equals "[Num 1]" "[]"]
        zero_calls_no_error[of "spy_with []" print_flat deep_equals "[]" "[]"]
  by (simp add: matcher_example_defs toBeCalledWith_def lastCalledWith_def index_def
        deep_equals_def)

section \<open>Properties of FailureCapture\<close>

lemma deref_append_old: "x < length h \<Longrightarrow> deref (h @ ext) x = deref h x"
  by (simp add: deref_def nth_append)

lemma valid_instanceof_append:
  "valid h v \<Longrightarrow> instanceof (h @ ext) v F = instanceof h v F"
  by (cases v) (simp_all add: deref_append_old)

lemma valid_get_nodeType_append:
  "valid h v \<Longrightarrow> get_nodeType (h @ ext) v = get_nodeType h v"
  by (cases v) (simp_all add: deref_append_old)

lemma passes_through_iff_guard:
  "passes_through env gt_zero h v \<longleftrightarrow>
     (typeof v \<noteq> ''object'' \<or> v = Null \<or> is_host_node env gt_zero h v)"
  by (auto simp: passes_through_def is_host_node_def split: option.splits)

lemma passes_through_append:
  "valid h v \<Longrightarrow> passes_through env gt_zero (h @ ext) v = passes_through env gt_zero h v"
  by (simp add: passes_through_def valid_instanceof_append valid_get_nodeType_append)

lemma not_passes_through_object:
  "\<not> passes_through env gt_zero h v \<Longrightarrow> \<exists>x. v = Object x"
  by (cases v) (simp_all add: passes_through_def)

text \<open>
  One call of \<^verbatim>\<open>shallowCopy\<close>, in a store that has grown by \<open>ext\<close> since the failure:
  the store only grows, and the value returned is the capture of the argument, also
  after the store has grown further.
\<close>

lemma shallowCopy_captured:
  assumes "valid h0 v"
  shows "\<exists>w more. shallowCopy env gt_zero (h0 @ ext) v = (w, h0 @ ext @ more) \<and>
           (\<forall>later. captured env gt_zero h0 (h0 @ ext @ more @ later) v w)"
proof (cases "passes_through env gt_zero h0 v")
  case True
  then have "passes_through env gt_zero (h0 @ ext) v"
    using assms by (simp add: passes_through_append)
  then have "shallowCopy env gt_zero (h0 @ ext) v = (v, h0 @ ext @ [])"
    by (simp add: shallowCopy_def passes_through_iff_guard)
  moreover have "\<forall>later. captured env gt_zero h0 (h0 @ ext @ [] @ later) v v"
    using True by (simp add: captured_def)
  ultimately show ?thesis by blast
next
  case False
  then obtain x where v: "v = Object x"
    using not_passes_through_object by blast
  with assms have x: "x < length h0" by simp
  define c where "c = h0 ! x"
  have d0: "deref h0 x = Some c"
    using x by (simp add: deref_def c_def)
  have np: "\<not> passes_through env gt_zero (h0 @ ext) v"
    using False assms by (simp add: passes_through_append)
  have sc: "shallowCopy env gt_zero (h0 @ ext) v = (Object (length (h0 @ ext)), h0 @ ext @ [c])"
    using np d0 x unfolding passes_through_iff_guard
    by (simp add: shallowCopy_def v deref_append_old)
  have cap: "captured env gt_zero h0 (h0 @ ext @ [c] @ later) v (Object (length (h0 @ ext)))"
    for later
  proof -
    let ?y = "length (h0 @ ext)"
    let ?H = "h0 @ ext @ [c] @ later"
    have y: "?H ! ?y = c"
      by (metis append.assoc append_Cons nth_append_length)
    have "deref ?H ?y = Some c"
      using y by (simp add: deref_def)
    moreover have "deref (?H[z := c']) ?y = Some c" if "z < length h0" for z c'
      using that y by (simp add: deref_def)
    ultimately show ?thesis
      using False x d0 by (auto simp: captured_def v)
  qed
  show ?thesis
    using sc cap by blast
qed

text \<open>
  C3. For every options record whose \<^verbatim>\<open>passed\<close> is falsy (a failure), the patched
  builder calls the original builder with the same options except that \<^verbatim>\<open>expected\<close>
  and \<^verbatim>\<open>actual\<close> are replaced by their captures. A value that is not of object type,
  is \<^verbatim>\<open>null\<close>, or is an instance of the host's \<^verbatim>\<open>Node\<close> with a positive
  \<^verbatim>\<open>nodeType\<close> is passed unchanged, the same reference. Every other object is replaced
  by a new object that holds what the original held at the failure; the objects that
  existed then are left as they were, and storing anything at their addresses afterwards
  does not change the copy.
\<close>

theorem buildExpectationResult_failure_captures:
  assumes "\<not> truthy (passed options)"
      and "valid h (expected options)" and "valid h (actual options)"
  shows "\<exists>e a h'. buildExpectationResult orig env gt_zero h options =
                    orig h' (options\<lparr>expected := e, actual := a\<rparr>) \<and>
           captured env gt_zero h h' (expected options) e \<and>
           captured env gt_zero h h' (actual options) a \<and>
           (\<forall>x < length h. deref h' x = deref h x)"
proof -
  from shallowCopy_captured[OF assms(2), of env gt_zero "[]"]
  obtain e m1 where
    e: "shallowCopy env gt_zero h (expected options) = (e, h @ m1)" and
    ce: "\<And>later. captured env gt_zero h (h @ m1 @ later) (expected options) e"
    by auto
  from shallowCopy_captured[OF assms(3), of env gt_zero m1]
  obtain a m2 where
    a: "shallowCopy env gt_zero (h @ m1) (actual options) = (a, h @ m1 @ m2)" and
    ca: "\<And>later. captured env gt_zero h (h @ m1 @ m2 @ later) (actual options) a"
    by auto
  have run: "buildExpectationResult orig env gt_zero h options =
               orig (h @ m1 @ m2) (options\<lparr>expected := e, actual := a\<rparr>)"
    using assms(1) by (simp add: buildExpectationResult_def e a)
  have "captured env gt_zero h (h @ m1 @ m2) (expected options) e"
    using ce[of m2] by simp
  moreover have "captured env gt_zero h (h @ m1 @ m2) (actual options) a"
    using ca[of "[]"] by simp
  moreover have "\<forall>x < length h. deref (h @ m1 @ m2) x = deref h x"
    by (simp add: deref_append_old)
  ultimately show ?thesis
    using run by blast
qed

theorem buildExpectationResult_failure_captures_witness:
  "\<not> truthy (passed failed_options) \<and>
   valid example_store (expected failed_options) \<and>
   valid example_store (actual failed_options) \<and>
   buildExpectationResult Pair example_env number_gt_zero example_store failed_options =
     (example_store @ [\<lparr>instance_of = [1], nodeType = Undefined, properties = [(''x'', Num 1)]\<rparr>],
      \<lparr>passed = Bool False, expected = Object 2, actual = Object 1\<rparr>) \<and>
   deref ((example_store @
            [\<lparr>instance_of = [1], nodeType = Undefined, properties = [(''x'', Num 1)]\<rparr>])
          [0 := \<lparr>instance_of = [1], nodeType = Undefined, properties = [(''x'', Num 2)]\<rparr>]) 2 =
     Some \<lparr>instance_of = [1], nodeType = Undefined, properties = [(''x'', Num 1)]\<rparr>"
  using buildExpectationResult_failure_captures
          [of failed_options example_store Pair example_env number_gt_zero]
  by (simp add: store_example_defs buildExpectationResult_def shallowCopy_def
        is_host_node_def deref_def)

text \<open>
  C10. For every options record whose \<^verbatim>\<open>passed\<close> is truthy, the patched builder calls
  the original builder with the options and the store exactly as it received them:
  \<^verbatim>\<open>expected\<close> and \<^verbatim>\<open>actual\<close> keep their references and nothing is copied.
\<close>

theorem buildExpectationResult_pass_forwards:
  assumes "truthy (passed options)"
  shows "buildExpectationResult orig env gt_zero h options = orig h options"
  using assms by (simp add: buildExpectationResult_def)

theorem buildExpectationResult_pass_forwards_witness:
  "truthy (passed passed_options) \<and>
   buildExpectationResult Pair example_env number_gt_zero example_store passed_options =
     (example_store, passed_options)"
  using buildExpectationResult_pass_forwards
          [of passed_options Pair example_env number_gt_zero example_store]
  by (simp add: store_example_defs)

section \<open>Properties of the ResultAggregator\<close>

text \<open>
  C2. For every run: \<^verbatim>\<open>hasUncheckedKeys\<close> is read from the snapshot file as the run
  left it, before anything changes it; the unchecked keys are removed if and only if
  \<^verbatim>\<open>updateSnapshot\<close> is configured; then the file is saved, once, which gives the
  status. The results returned have \<^verbatim>\<open>hasUncheckedKeys\<close> equal to: not deleted, and
  unchecked keys before the removal. Their \<^verbatim>\<open>snapshot\<close> record holds the deletion flag
  of the status and the four counters of the snapshot state. The other fields of the
  results are unchanged, and the snapshot state is left with the saved file.
\<close>

theorem aggregate_result:
  "let snap0 = currentSnapshot st;
       update = updateSnapshot config;
       snap1 = (if update then snapshot_removeUncheckedKeys methods snap0 else snap0);
       saved = snapshot_save methods update snap1;
       out = aggregate methods config st results
   in hasUncheckedKeys (fst out) =
        (\<not> deleted (fst saved) \<and> snapshot_hasUncheckedKeys methods snap0) \<and>
      snapshot (fst out) =
        \<lparr>added = added st, matched = matched st, unmatched = unmatched st,
         updated = updated st, fileDeleted = deleted (fst saved)\<rparr> \<and>
      results.more (fst out) = results.more results \<and>
      snd out = st\<lparr>currentSnapshot := snd saved\<rparr>"
  by (simp add: aggregate_def Let_def split_beta)

theorem aggregate_result_witness:
  "aggregate example_methods \<lparr>updateSnapshot = False\<rparr> example_state empty_results =
     (\<lparr>hasUncheckedKeys = True,
       snapshot = \<lparr>added = 1, matched = 2, unmatched = 0, updated = 0, fileDeleted = False\<rparr>\<rparr>,
      example_state) \<and>
   aggregate example_methods \<lparr>updateSnapshot = True\<rparr> example_state empty_results =
     (\<lparr>hasUncheckedKeys = False,
       snapshot = \<lparr>added = 1, matched = 2, unmatched = 0, updated = 0, fileDeleted = True\<rparr>\<rparr>,
      example_state\<lparr>currentSnapshot := []\<rparr>)"
  using aggregate_result
          [of example_state "\<lparr>updateSnapshot = False\<rparr>" example_methods empty_results]
        aggregate_result
          [of example_state "\<lparr>updateSnapshot = True\<rparr>" example_methods empty_results]
  by (simp add: snapshot_example_defs aggregate_def)

end
